theory Spec2Isabelle
  imports Main
begin

section \<open>Python values used by the backend\<close>

text \<open>
  A Python \<open>str\<close> is a sequence of Unicode code points; \<open>len\<close> counts code points.
  The literals of the source are ASCII and are written with \<open>ascii\<close>.
\<close>

type_synonym pystr = "nat list"

definition ascii :: "string \<Rightarrow> pystr" where
  "ascii s = map of_char s"

text \<open>
  \<open>str.isspace\<close> of one code point: general category Zs or bidirectional class WS, B or S.
\<close>

definition isspace :: "nat \<Rightarrow> bool" where
  "isspace c \<longleftrightarrow>
     (9 \<le> c \<and> c \<le> 13) \<or> (28 \<le> c \<and> c \<le> 32) \<or> c = 133 \<or> c = 160 \<or> c = 5760 \<or>
     (8192 \<le> c \<and> c \<le> 8202) \<or> c = 8232 \<or> c = 8233 \<or> c = 8239 \<or> c = 8287 \<or> c = 12288"

text \<open>\<open>s.strip()\<close>: whitespace removed at both ends.\<close>

definition strip :: "pystr \<Rightarrow> pystr" where
  "strip s = rev (dropWhile isspace (rev (dropWhile isspace s)))"

text \<open>\<open>s.rstrip("/")\<close>.\<close>

definition rstrip_slash :: "pystr \<Rightarrow> pystr" where
  "rstrip_slash s = rev (dropWhile (\<lambda>c. c = 47) (rev s))"

text \<open>\<open>max(xs, default=d)\<close>.\<close>

fun max_default :: "int list \<Rightarrow> int \<Rightarrow> int" where
  "max_default [] d = d"
| "max_default (x # xs) d = fold max xs x"

text \<open>
  What a handler raises. \<open>HTTPException\<close> carries the status code and the detail;
  \<open>LibraryError\<close> is any other exception that leaves a library call.
\<close>

datatype detail = Detail string | Unknown_track_ids "int list"

datatype error = HTTPException int detail | ValueError | JWTError | LibraryError string

section \<open>Records of the three JSON documents\<close>

record track =
  id_t :: int
  title :: pystr
  artist :: pystr
  preview_file :: pystr

record user =
  id_u :: int
  email :: pystr
  password :: "pystr option"
  name_u :: "pystr option"
  role :: "pystr option"

record playlist =
  id_p :: int
  user_id :: int
  name_p :: pystr
  tracks :: "int list"
  created_at :: "pystr option"
  updated_at :: "pystr option"

text \<open>
  The module's globals, and the contents of the two files the handlers rewrite.
\<close>

record state =
  RAW_USERS :: "user list"
  USERS_BY_EMAIL :: "pystr \<rightharpoonup> user"
  RAW_PLAYLISTS :: "playlist list"
  TRACK_BY_ID :: "int \<rightharpoonup> track"
  USER_DATA_FILE :: "user list"
  PLAYLIST_DATA_FILE :: "playlist list"

definition save_users_to_file :: "state \<Rightarrow> state" where
  "save_users_to_file s = s\<lparr>USER_DATA_FILE := RAW_USERS s\<rparr>"

definition save_playlists_to_file :: "state \<Rightarrow> state" where
  "save_playlists_to_file s = s\<lparr>PLAYLIST_DATA_FILE := RAW_PLAYLISTS s\<rparr>"

definition next_user_id :: "state \<Rightarrow> int" where
  "next_user_id s = max_default (map id_u (RAW_USERS s)) 0 + 1"

definition next_playlist_id :: "state \<Rightarrow> int" where
  "next_playlist_id s = max_default (map id_p (RAW_PLAYLISTS s)) 0 + 1"

section \<open>Tracks as they are sent\<close>

record track_out =
  id_o :: int
  title_o :: pystr
  artist_o :: pystr
  preview :: pystr

definition absolute_audio_url :: "pystr \<Rightarrow> pystr \<Rightarrow> pystr" where
  "absolute_audio_url base_url filename = rstrip_slash base_url @ ascii ''/audio/'' @ filename"

definition serialize_track :: "pystr \<Rightarrow> track \<Rightarrow> track_out" where
  "serialize_track base_url t =
     \<lparr>id_o = id_t t, title_o = title t, artist_o = artist t,
      preview = absolute_audio_url base_url (preview_file t)\<rparr>"

section \<open>Playlists (CRUD)\<close>

record PlaylistIn =
  name_in :: pystr
  tracks_in :: "int list"

record PlaylistUpdate =
  name_upd :: "pystr option"
  tracks_upd :: "int list option"

record PlaylistOut =
  id_out :: int
  user_id_out :: int
  name_out :: pystr
  tracks_out :: "track_out list"
  created_at_out :: "pystr option"
  updated_at_out :: "pystr option"

definition validate_track_ids :: "state \<Rightarrow> int list \<Rightarrow> error + unit" where
  "validate_track_ids s track_ids =
     (let bad = filter (\<lambda>tid. TRACK_BY_ID s tid = None) track_ids
      in if bad \<noteq> [] then Inl (HTTPException 400 (Unknown_track_ids bad)) else Inr ())"

fun tracks_full :: "state \<Rightarrow> pystr \<Rightarrow> int list \<Rightarrow> track_out list" where
  "tracks_full s base_url [] = []"
| "tracks_full s base_url (tid # tids) =
     (case TRACK_BY_ID s tid of
        None \<Rightarrow> tracks_full s base_url tids
      | Some t \<Rightarrow> serialize_track base_url t # tracks_full s base_url tids)"

definition populate_playlist :: "state \<Rightarrow> pystr \<Rightarrow> playlist \<Rightarrow> PlaylistOut" where
  "populate_playlist s base_url pl =
     \<lparr>id_out = id_p pl, user_id_out = user_id pl, name_out = name_p pl,
      tracks_out = tracks_full s base_url (tracks pl),
      created_at_out = created_at pl, updated_at_out = updated_at pl\<rparr>"

text \<open>
  \<open>get_playlist_or_404\<close> returns the dict object itself, which \<open>update_playlist\<close> then
  mutates in place: the model returns its position in \<open>RAW_PLAYLISTS\<close>.
\<close>

fun first_index :: "int \<Rightarrow> playlist list \<Rightarrow> nat option" where
  "first_index pid [] = None"
| "first_index pid (p # ps) =
     (if id_p p = pid then Some 0 else map_option Suc (first_index pid ps))"

definition get_playlist_or_404 :: "state \<Rightarrow> int \<Rightarrow> error + nat" where
  "get_playlist_or_404 s pid =
     (case first_index pid (RAW_PLAYLISTS s) of
        Some i \<Rightarrow> Inr i
      | None \<Rightarrow> Inl (HTTPException 404 (Detail ''Playlist not found'')))"

definition assert_owner :: "playlist \<Rightarrow> user \<Rightarrow> error + unit" where
  "assert_owner pl u =
     (if user_id pl \<noteq> id_u u then Inl (HTTPException 403 (Detail ''Forbidden'')) else Inr ())"

definition list_playlists :: "state \<Rightarrow> pystr \<Rightarrow> user \<Rightarrow> PlaylistOut list" where
  "list_playlists s base_url current =
     map (populate_playlist s base_url)
       (filter (\<lambda>p. user_id p = id_u current) (RAW_PLAYLISTS s))"

definition get_playlist :: "state \<Rightarrow> int \<Rightarrow> pystr \<Rightarrow> user \<Rightarrow> (error + PlaylistOut) \<times> state" where
  "get_playlist s pid base_url current =
     (case get_playlist_or_404 s pid of
        Inl e \<Rightarrow> (Inl e, s)
      | Inr i \<Rightarrow>
          (case assert_owner (RAW_PLAYLISTS s ! i) current of
             Inl e \<Rightarrow> (Inl e, s)
           | Inr _ \<Rightarrow> (Inr (populate_playlist s base_url (RAW_PLAYLISTS s ! i)), s)))"

text \<open>
  \<open>now\<close> is the text \<open>datetime.utcnow().isoformat() + "Z"\<close> of the call.
\<close>

definition create_playlist ::
  "state \<Rightarrow> PlaylistIn \<Rightarrow> pystr \<Rightarrow> user \<Rightarrow> pystr \<Rightarrow> (error + PlaylistOut) \<times> state" where
  "create_playlist s body base_url current now =
     (case validate_track_ids s (tracks_in body) of
        Inl e \<Rightarrow> (Inl e, s)
      | Inr _ \<Rightarrow>
          (let new_pl = \<lparr>id_p = next_playlist_id s, user_id = id_u current,
                         name_p = strip (name_in body), tracks = tracks_in body,
                         created_at = Some now, updated_at = Some now\<rparr>;
               s1 = s\<lparr>RAW_PLAYLISTS := RAW_PLAYLISTS s @ [new_pl]\<rparr>;
               s2 = save_playlists_to_file s1
           in (Inr (populate_playlist s2 base_url new_pl), s2)))"

definition assign :: "state \<Rightarrow> nat \<Rightarrow> (playlist \<Rightarrow> playlist) \<Rightarrow> state" where
  "assign s i f = s\<lparr>RAW_PLAYLISTS := (RAW_PLAYLISTS s)[i := f (RAW_PLAYLISTS s ! i)]\<rparr>"

definition update_playlist ::
  "state \<Rightarrow> int \<Rightarrow> PlaylistUpdate \<Rightarrow> pystr \<Rightarrow> user \<Rightarrow> pystr \<Rightarrow> (error + PlaylistOut) \<times> state" where
  "update_playlist s pid body base_url current now =
     (case get_playlist_or_404 s pid of
        Inl e \<Rightarrow> (Inl e, s)
      | Inr i \<Rightarrow>
          (case assert_owner (RAW_PLAYLISTS s ! i) current of
             Inl e \<Rightarrow> (Inl e, s)
           | Inr _ \<Rightarrow>
               (let s1 = (case name_upd body of
                            None \<Rightarrow> s
                          | Some n \<Rightarrow> assign s i (\<lambda>pl. pl\<lparr>name_p := strip n\<rparr>));
                    r = (case tracks_upd body of
                           None \<Rightarrow> Inr s1
                         | Some ts \<Rightarrow>
                             (case validate_track_ids s1 ts of
                                Inl e \<Rightarrow> Inl e
                              | Inr _ \<Rightarrow> Inr (assign s1 i (\<lambda>pl. pl\<lparr>tracks := ts\<rparr>))))
                in case r of
                     Inl e \<Rightarrow> (Inl e, s1)
                   | Inr s2 \<Rightarrow>
                       (let s3 = assign s2 i (\<lambda>pl. pl\<lparr>updated_at := Some now\<rparr>);
                            s4 = save_playlists_to_file s3
                        in (Inr (populate_playlist s4 base_url (RAW_PLAYLISTS s4 ! i)), s4)))))"

text \<open>The loop of \<open>delete_playlist\<close>: pop the first entry with the id, then stop.\<close>

fun pop_first :: "int \<Rightarrow> playlist list \<Rightarrow> playlist list" where
  "pop_first pid [] = []"
| "pop_first pid (p # ps) = (if id_p p = pid then ps else p # pop_first pid ps)"

definition delete_playlist :: "state \<Rightarrow> int \<Rightarrow> user \<Rightarrow> (error + unit) \<times> state" where
  "delete_playlist s pid current =
     (case get_playlist_or_404 s pid of
        Inl e \<Rightarrow> (Inl e, s)
      | Inr i \<Rightarrow>
          (case assert_owner (RAW_PLAYLISTS s ! i) current of
             Inl e \<Rightarrow> (Inl e, s)
           | Inr _ \<Rightarrow>
               (let s1 = s\<lparr>RAW_PLAYLISTS := pop_first pid (RAW_PLAYLISTS s)\<rparr>
                in (Inr (), save_playlists_to_file s1))))"

section \<open>Security: password context and JWT\<close>

text \<open>
  The libraries the module calls are parameters of the model: \<open>str.lower\<close>,
  \<open>bytes.decode("utf-8", errors="ignore")\<close>, passlib's \<open>pwd_context.hash\<close> (with the salt
  it draws) and \<open>pwd_context.verify\<close>, jose's \<open>jwt.encode\<close> and \<open>jwt.decode\<close> (with the clock
  it reads), \<open>int\<close> applied to a \<open>str\<close> (\<open>None\<close> is its \<open>ValueError\<close>), and the validation
  of an \<open>EmailStr\<close> field by pydantic, which returns the normalised address.
  A library call that raises returns \<open>Inl\<close>. A token is a value of \<open>'tok\<close>.
\<close>

record claims =
  sub :: "pystr option"
  exp_at :: "int option"

record 'tok libs =
  str_lower :: "pystr \<Rightarrow> pystr"
  decode_ignore :: "nat list \<Rightarrow> pystr"
  ctx_hash :: "nat \<Rightarrow> pystr \<Rightarrow> error + pystr"
  ctx_verify :: "pystr \<Rightarrow> pystr \<Rightarrow> error + bool"
  jwt_encode :: "claims \<Rightarrow> pystr \<Rightarrow> 'tok"
  jwt_decode :: "'tok \<Rightarrow> pystr \<Rightarrow> int \<Rightarrow> error + claims"
  int_of_str :: "pystr \<Rightarrow> int option"
  validate_email :: "pystr \<Rightarrow> error + pystr"

record config =
  SECRET_KEY :: pystr
  ACCESS_TOKEN_EXPIRE_MINUTES :: int

text \<open>An argument of \<open>_ensure_str\<close>: a \<open>str\<close> or a \<open>bytes\<close> object.\<close>

datatype text_arg = Str pystr | Bytes "nat list"

definition ensure_str :: "'tok libs \<Rightarrow> text_arg \<Rightarrow> pystr" where
  "ensure_str L p = (case p of Bytes b \<Rightarrow> decode_ignore L b | Str t \<Rightarrow> t)"

definition hash_password :: "'tok libs \<Rightarrow> nat \<Rightarrow> text_arg \<Rightarrow> error + pystr" where
  "hash_password L salt p = ctx_hash L salt (ensure_str L p)"

definition verify_password :: "'tok libs \<Rightarrow> text_arg \<Rightarrow> text_arg \<Rightarrow> error + bool" where
  "verify_password L plain_password hashed_password =
     ctx_verify L (ensure_str L plain_password) (ensure_str L hashed_password)"

text \<open>
  Times are seconds. \<open>expires_delta or timedelta(minutes=...)\<close> takes the default also
  for a zero \<open>expires_delta\<close>, which is falsy.
\<close>

definition create_access_token ::
  "'tok libs \<Rightarrow> config \<Rightarrow> claims \<Rightarrow> int option \<Rightarrow> int \<Rightarrow> 'tok" where
  "create_access_token L cfg data expires_delta now =
     (let delta = (case expires_delta of
                     None \<Rightarrow> 60 * ACCESS_TOKEN_EXPIRE_MINUTES cfg
                   | Some d \<Rightarrow> if d = 0 then 60 * ACCESS_TOKEN_EXPIRE_MINUTES cfg else d);
          expire = now + delta
      in jwt_encode L (data\<lparr>exp_at := Some expire\<rparr>) (SECRET_KEY cfg))"

text \<open>\<open>str(n)\<close> of an integer.\<close>

fun digits :: "nat \<Rightarrow> pystr" where
  "digits n = (if n < 10 then [48 + n] else digits (n div 10) @ [48 + n mod 10])"

declare digits.simps [simp del]

definition str_int :: "int \<Rightarrow> pystr" where
  "str_int i = (if i < 0 then 45 # digits (nat (- i)) else digits (nat i))"

text \<open>
  What the theorems below assume of the libraries, where they need it: the password context
  verifies a hash it has produced for the same text (\<open>pwd_sound\<close>) and answers \<open>True\<close> only
  for a hash it can produce for that text (\<open>pwd_exact\<close>); the JWT library gives back the
  claims of a token it has encoded with the same key, as long as the expiry lies ahead; and
  \<open>int\<close> reads back the text \<open>str\<close> gives an integer.
\<close>

definition pwd_sound :: "'tok libs \<Rightarrow> bool" where
  "pwd_sound L \<longleftrightarrow>
     (\<forall>p salt h. ctx_hash L salt p = Inr h \<longrightarrow> ctx_verify L p h = Inr True)"

definition pwd_exact :: "'tok libs \<Rightarrow> bool" where
  "pwd_exact L \<longleftrightarrow>
     (\<forall>p h. ctx_verify L p h = Inr True \<longrightarrow> (\<exists>salt. ctx_hash L salt p = Inr h))"

definition jwt_sound :: "'tok libs \<Rightarrow> bool" where
  "jwt_sound L \<longleftrightarrow>
     (\<forall>c key t e. exp_at c = Some e \<and> t < e \<longrightarrow> jwt_decode L (jwt_encode L c key) key t = Inr c)"

definition int_str_sound :: "'tok libs \<Rightarrow> bool" where
  "int_str_sound L \<longleftrightarrow> (\<forall>n. int_of_str L (str_int n) = Some n)"

section \<open>Auth\<close>

record LoginIn =
  email_li :: pystr
  password_li :: pystr

record SignupIn =
  email_su :: pystr
  password_su :: pystr
  name_su :: "pystr option"

record PublicUser =
  id_pub :: int
  email_pub :: pystr
  name_pub :: pystr
  role_pub :: pystr

record 'tok LoginOut =
  access_token :: "'tok option"
  token_type :: string
  user_pub :: PublicUser

text \<open>
  \<open>PublicUser(...)\<close> validates its \<open>email\<close> field on construction: it raises for an
  address it does not accept and stores the normalised address otherwise.
\<close>

definition to_public_user :: "'tok libs \<Rightarrow> user \<Rightarrow> error + PublicUser" where
  "to_public_user L u =
     (case validate_email L (email u) of
        Inl e \<Rightarrow> Inl e
      | Inr address \<Rightarrow>
          Inr \<lparr>id_pub = id_u u, email_pub = address,
               name_pub = (case name_u u of None \<Rightarrow> [] | Some n \<Rightarrow> n),
               role_pub = (case role u of None \<Rightarrow> ascii ''user'' | Some r \<Rightarrow> r)\<rparr>)"

text \<open>
  The loop of \<open>get_current_user\<close>: \<open>int(uid)\<close> is evaluated once per user visited.
\<close>

fun scan_users :: "'tok libs \<Rightarrow> user list \<Rightarrow> pystr \<Rightarrow> error + user" where
  "scan_users L [] uid = Inl (HTTPException 401 (Detail ''User not found''))"
| "scan_users L (u # us) uid =
     (case int_of_str L uid of
        None \<Rightarrow> Inl ValueError
      | Some n \<Rightarrow> if id_u u = n then Inr u else scan_users L us uid)"

text \<open>
  The cookie is \<open>None\<close> when it is absent or empty. \<open>except JWTError\<close> catches
  only \<open>JWTError\<close>; the \<open>HTTPException\<close> raised inside the \<open>try\<close> passes through.
\<close>

definition get_current_user ::
  "'tok libs \<Rightarrow> config \<Rightarrow> state \<Rightarrow> 'tok option \<Rightarrow> int \<Rightarrow> error + user" where
  "get_current_user L cfg s access_token_cookie now =
     (case access_token_cookie of
        None \<Rightarrow> Inl (HTTPException 401 (Detail ''Not authenticated''))
      | Some t \<Rightarrow>
          (case jwt_decode L t (SECRET_KEY cfg) now of
             Inl e \<Rightarrow>
               (if e = JWTError then Inl (HTTPException 401 (Detail ''Invalid or expired token''))
                else Inl e)
           | Inr payload \<Rightarrow>
               (case sub payload of
                  None \<Rightarrow> Inl (HTTPException 401 (Detail ''Invalid token payload''))
                | Some uid \<Rightarrow> scan_users L (RAW_USERS s) uid)))"

text \<open>
  A successful \<open>signup\<close> or \<open>login\<close> returns the body and the value of the cookie it sets.
  In \<open>signup\<close> the hash is computed while the user record is built, before anything is
  stored; the response body is built last, after the user has been stored and saved.
\<close>

definition signup ::
  "'tok libs \<Rightarrow> config \<Rightarrow> state \<Rightarrow> SignupIn \<Rightarrow> nat \<Rightarrow> int \<Rightarrow>
     (error + 'tok LoginOut \<times> 'tok) \<times> state" where
  "signup L cfg s body salt now =
     (let email_key = strip (str_lower L (email_su body))
      in if USERS_BY_EMAIL s email_key \<noteq> None
         then (Inl (HTTPException 400 (Detail ''Email already registered'')), s)
         else if length (password_su body) < 6
         then (Inl (HTTPException 400 (Detail ''Password must be at least 6 characters'')), s)
         else
           (case hash_password L salt (Str (password_su body)) of
              Inl e \<Rightarrow> (Inl e, s)
            | Inr hashed \<Rightarrow>
                (let local_part = takeWhile (\<lambda>c. c \<noteq> 64) email_key;
                     new_user = \<lparr>id_u = next_user_id s, email = email_key,
                                  password = Some hashed,
                                  name_u = Some (case name_su body of
                                                   None \<Rightarrow> local_part
                                                 | Some n \<Rightarrow> if n = [] then local_part else n),
                                  role = Some (ascii ''user'')\<rparr>;
                     s1 = s\<lparr>RAW_USERS := RAW_USERS s @ [new_user],
                             USERS_BY_EMAIL := (USERS_BY_EMAIL s)(email_key \<mapsto> new_user)\<rparr>;
                     s2 = save_users_to_file s1;
                     token = create_access_token L cfg
                               \<lparr>sub = Some (str_int (id_u new_user)), exp_at = None\<rparr> None now
                 in case to_public_user L new_user of
                      Inl e \<Rightarrow> (Inl e, s2)
                    | Inr public \<Rightarrow>
                        (Inr (\<lparr>access_token = Some token, token_type = ''bearer'',
                                user_pub = public\<rparr>, token), s2))))"

definition login ::
  "'tok libs \<Rightarrow> config \<Rightarrow> state \<Rightarrow> LoginIn \<Rightarrow> int \<Rightarrow>
     (error + 'tok LoginOut \<times> 'tok) \<times> state" where
  "login L cfg s body now =
     (let email_key = strip (str_lower L (email_li body));
          invalid = Inl (HTTPException 401 (Detail ''Invalid email or password''))
      in case USERS_BY_EMAIL s email_key of
           None \<Rightarrow> (invalid, s)
         | Some u \<Rightarrow>
             (case verify_password L (Str (password_li body))
                     (Str (case password u of None \<Rightarrow> [] | Some h \<Rightarrow> h)) of
                Inl e \<Rightarrow> (Inl e, s)
              | Inr False \<Rightarrow> (invalid, s)
              | Inr True \<Rightarrow>
                  (let token = create_access_token L cfg
                                 \<lparr>sub = Some (str_int (id_u u)), exp_at = None\<rparr> None now
                   in case to_public_user L u of
                        Inl e \<Rightarrow> (Inl e, s)
                      | Inr public \<Rightarrow>
                          (Inr (\<lparr>access_token = Some token, token_type = ''bearer'',
                                  user_pub = public\<rparr>, token), s))))"

definition me :: "'tok libs \<Rightarrow> user \<Rightarrow> error + PublicUser" where
  "me L current = to_public_user L current"

section \<open>Sequences of playlist requests\<close>

text \<open>
  The server handles one request after the other; \<open>handle\<close> is the effect of one playlist
  request on the state, whether it succeeds or raises.
\<close>

datatype request =
    Create PlaylistIn pystr user pystr
  | Update int PlaylistUpdate pystr user pystr
  | Delete int user

fun handle :: "state \<Rightarrow> request \<Rightarrow> state" where
  "handle s (Create body base_url u now) = snd (create_playlist s body base_url u now)"
| "handle s (Update pid body base_url u now) = snd (update_playlist s pid body base_url u now)"
| "handle s (Delete pid u) = snd (delete_playlist s pid u)"

definition ids_ok :: "state \<Rightarrow> bool" where
  "ids_ok s \<longleftrightarrow>
     distinct (map id_p (RAW_PLAYLISTS s)) \<and> list_all (\<lambda>i. 0 < i) (map id_p (RAW_PLAYLISTS s))"

section \<open>Concrete data for the examples\<close>

text \<open>
  An instance of the libraries: ASCII lower-casing, a recognisable salted hash that refuses
  a text of more than 4096 characters and whose verification rejects a hash it cannot
  identify, a token that is its claims paired with the signing key and is accepted until its
  expiry, decimal parsing, and an address check that asks for an \<open>@\<close>.
\<close>

fun decimal :: "pystr \<Rightarrow> nat \<Rightarrow> nat option" where
  "decimal [] acc = Some acc"
| "decimal (c # cs) acc =
     (if 48 \<le> c \<and> c \<le> 57 then decimal cs (10 * acc + (c - 48)) else None)"

definition decimal_int :: "pystr \<Rightarrow> int option" where
  "decimal_int t =
     (case strip t of
        [] \<Rightarrow> None
      | c # cs \<Rightarrow>
          if c = 45 then (if cs = [] then None else map_option (\<lambda>n. - int n) (decimal cs 0))
          else if c = 43 then (if cs = [] then None else map_option int (decimal cs 0))
          else map_option int (decimal (c # cs) 0))"

definition demo_hash :: "nat \<Rightarrow> pystr \<Rightarrow> error + pystr" where
  "demo_hash salt p =
     (if 4096 < length p then Inl (LibraryError ''PasswordSizeError'')
      else Inr (ascii ''$demo$'' @ [salt, 36] @ p))"

definition demo_verify :: "pystr \<Rightarrow> pystr \<Rightarrow> error + bool" where
  "demo_verify p h =
     (if take 6 h \<noteq> ascii ''$demo$'' then Inl (LibraryError ''UnknownHashError'')
      else if 4096 < length p then Inl (LibraryError ''PasswordSizeError'')
      else Inr (case drop 6 h of [] \<Rightarrow> False | salt # rest \<Rightarrow> rest = 36 # p))"

definition demo_email :: "pystr \<Rightarrow> error + pystr" where
  "demo_email address =
     (if 64 \<in> set address then Inr address else Inl (LibraryError ''ValidationError''))"

definition demo_libs :: "(claims \<times> pystr) libs" where
  "demo_libs =
     \<lparr>str_lower = map (\<lambda>c. if 65 \<le> c \<and> c \<le> 90 then c + 32 else c),
      decode_ignore = filter (\<lambda>b. b < 128),
      ctx_hash = demo_hash,
      ctx_verify = demo_verify,
      jwt_encode = (\<lambda>c k. (c, k)),
      jwt_decode = (\<lambda>t k now.
        if snd t = k \<and> (case exp_at (fst t) of None \<Rightarrow> True | Some e \<Rightarrow> now \<le> e)
        then Inr (fst t) else Inl JWTError),
      int_of_str = decimal_int,
      validate_email = demo_email\<rparr>"

definition demo_config :: config where
  "demo_config = \<lparr>SECRET_KEY = ascii ''change-me-in-production'',
                   ACCESS_TOKEN_EXPIRE_MINUTES = 60\<rparr>"

definition demo_track :: track where
  "demo_track = \<lparr>id_t = 1, title = ascii ''Song'', artist = ascii ''Band'',
                  preview_file = ascii ''song.mp3''\<rparr>"

definition alice :: user where
  "alice = \<lparr>id_u = 1, email = ascii ''a@x.com'',
             password = Some (ascii ''$demo$'' @ [7, 36] @ ascii ''secret1''),
             name_u = Some (ascii ''a''), role = Some (ascii ''user'')\<rparr>"

definition bob :: user where
  "bob = \<lparr>id_u = 2, email = ascii ''b@x.com'',
           password = Some (ascii ''$demo$'' @ [8, 36] @ ascii ''hunter22''),
           name_u = Some (ascii ''b''), role = Some (ascii ''user'')\<rparr>"

definition mix :: playlist where
  "mix = \<lparr>id_p = 1, user_id = 1, name_p = ascii ''Old'', tracks = [1],
           created_at = Some (ascii ''t0''), updated_at = Some (ascii ''t0'')\<rparr>"

definition demo_state :: state where
  "demo_state =
     \<lparr>RAW_USERS = [alice, bob],
      USERS_BY_EMAIL = [ascii ''a@x.com'' \<mapsto> alice, ascii ''b@x.com'' \<mapsto> bob],
      RAW_PLAYLISTS = [mix],
      TRACK_BY_ID = [1 \<mapsto> demo_track],
      USER_DATA_FILE = [alice, bob],
      PLAYLIST_DATA_FILE = [mix]\<rparr>"



text \<open>The state of a first start: no users, no playlists file, one track.\<close>

definition fresh_state :: state where
  "fresh_state =
     \<lparr>RAW_USERS = [], USERS_BY_EMAIL = Map.empty, RAW_PLAYLISTS = [],
      TRACK_BY_ID = [1 \<mapsto> demo_track], USER_DATA_FILE = [], PLAYLIST_DATA_FILE = []\<rparr>"

section \<open>Facts about the helpers\<close>

lemma dropWhile_rev_stable:
  "xs = [] \<or> \<not> P (hd xs) \<Longrightarrow>
   dropWhile P (rev (dropWhile P (rev xs))) = rev (dropWhile P (rev xs))"
  by (cases xs) (auto simp: dropWhile_append)

lemma strip_idem: "strip (strip t) = strip t"
proof -
  have "dropWhile isspace t = [] \<or> \<not> isspace (hd (dropWhile isspace t))"
    by (cases "dropWhile isspace t = []") (auto simp: hd_dropWhile)
  then show ?thesis
    unfolding strip_def by (simp add: dropWhile_rev_stable)
qed

lemma fold_max_mono: "(a::int) \<le> fold max xs a"
proof (induction xs arbitrary: a)
  case (Cons y ys)
  have "a \<le> max y a" by simp
  also have "\<dots> \<le> fold max ys (max y a)" by (rule Cons.IH)
  finally show ?case by simp
qed simp

lemma fold_max_ge: "x \<in> set xs \<Longrightarrow> x \<le> fold max xs (a::int)"
proof (induction xs arbitrary: a)
  case (Cons y ys)
  then show ?case using fold_max_mono[of "max y a" ys] by auto
qed simp

lemma max_default_ge: "x \<in> set xs \<Longrightarrow> x \<le> max_default xs d"
  by (cases xs) (auto simp: fold_max_ge fold_max_mono)

lemma next_playlist_id_fresh: "p \<in> set (RAW_PLAYLISTS s) \<Longrightarrow> id_p p < next_playlist_id s"
  using max_default_ge[of "id_p p" "map id_p (RAW_PLAYLISTS s)" 0]
  by (simp add: next_playlist_id_def)

lemma first_index_None: "first_index pid ps = None \<longleftrightarrow> pid \<notin> id_p ` set ps"
  by (induction ps) auto

lemma first_index_Some: "first_index pid ps = Some i \<Longrightarrow> i < length ps \<and> id_p (ps ! i) = pid"
  by (induction ps arbitrary: i) (auto split: if_splits)

lemma first_index_distinct:
  "distinct (map id_p ps) \<Longrightarrow> p \<in> set ps \<Longrightarrow> first_index (id_p p) ps = Some i \<Longrightarrow> ps ! i = p"
  by (induction ps arbitrary: i) (auto split: if_splits)

lemma first_index_stored:
  assumes "distinct (map id_p ps)" "p \<in> set ps"
  shows "\<exists>i. first_index (id_p p) ps = Some i \<and> ps ! i = p"
proof -
  have "first_index (id_p p) ps \<noteq> None" using assms(2) by (simp add: first_index_None)
  then obtain i where "first_index (id_p p) ps = Some i" by auto
  then show ?thesis using first_index_distinct[OF assms] by simp
qed

lemma validate_ok:
  "\<forall>t \<in> set ts. TRACK_BY_ID s t \<noteq> None \<Longrightarrow> validate_track_ids s ts = Inr ()"
  by (simp add: validate_track_ids_def filter_empty_conv)

lemma validate_bad:
  "t \<in> set ts \<Longrightarrow> TRACK_BY_ID s t = None \<Longrightarrow>
   validate_track_ids s ts =
     Inl (HTTPException 400 (Unknown_track_ids (filter (\<lambda>tid. TRACK_BY_ID s tid = None) ts)))"
  by (auto simp: validate_track_ids_def filter_empty_conv)

lemma create_playlist_ok:
  assumes "\<forall>t \<in> set (tracks_in body). TRACK_BY_ID s t \<noteq> None"
  shows "create_playlist s body base_url u now =
    (let new_pl = \<lparr>id_p = next_playlist_id s, user_id = id_u u,
                   name_p = strip (name_in body), tracks = tracks_in body,
                   created_at = Some now, updated_at = Some now\<rparr>;
         s' = s\<lparr>RAW_PLAYLISTS := RAW_PLAYLISTS s @ [new_pl],
                PLAYLIST_DATA_FILE := RAW_PLAYLISTS s @ [new_pl]\<rparr>
     in (Inr (populate_playlist s' base_url new_pl), s'))"
  using validate_ok[OF assms]
  by (simp add: create_playlist_def save_playlists_to_file_def Let_def)

lemma validate_RAW_PLAYLISTS:
  "validate_track_ids (s\<lparr>RAW_PLAYLISTS := x\<rparr>) ts = validate_track_ids s ts"
  by (simp add: validate_track_ids_def)

lemma update_playlist_ok:
  assumes idx: "first_index pid (RAW_PLAYLISTS s) = Some i"
    and own: "user_id (RAW_PLAYLISTS s ! i) = id_u u"
    and ok: "case tracks_upd body of None \<Rightarrow> True
             | Some ts \<Rightarrow> \<forall>t \<in> set ts. TRACK_BY_ID s t \<noteq> None"
  shows "update_playlist s pid body base_url u now =
    (let old = RAW_PLAYLISTS s ! i;
         new = old\<lparr>name_p := (case name_upd body of None \<Rightarrow> name_p old | Some n \<Rightarrow> strip n),
                   tracks := (case tracks_upd body of None \<Rightarrow> tracks old | Some ts \<Rightarrow> ts),
                   updated_at := Some now\<rparr>;
         s' = s\<lparr>RAW_PLAYLISTS := (RAW_PLAYLISTS s)[i := new],
                PLAYLIST_DATA_FILE := (RAW_PLAYLISTS s)[i := new]\<rparr>
     in (Inr (populate_playlist s' base_url new), s'))"
proof -
  have len: "i < length (RAW_PLAYLISTS s)" using first_index_Some[OF idx] by simp
  have g: "get_playlist_or_404 s pid = Inr i" using idx by (simp add: get_playlist_or_404_def)
  have a: "assert_owner (RAW_PLAYLISTS s ! i) u = Inr ()" using own by (simp add: assert_owner_def)
  have v: "validate_track_ids s ts = Inr ()" if "tracks_upd body = Some ts" for ts
    using ok that by (simp add: validate_ok)
  show ?thesis
    by (cases "tracks_upd body"; cases "name_upd body")
       (simp_all add: Let_def update_playlist_def g a v len assign_def
          save_playlists_to_file_def validate_RAW_PLAYLISTS)
qed

lemma not_found:
  assumes "pid \<notin> id_p ` set (RAW_PLAYLISTS s)"
  shows "get_playlist_or_404 s pid = Inl (HTTPException 404 (Detail ''Playlist not found''))"
  using assms first_index_None[of pid "RAW_PLAYLISTS s"]
  by (simp add: get_playlist_or_404_def)

text \<open>
  An update by the owner with an unknown track id raises 400 without saving; a name supplied
  in the same request has been assigned by then.
\<close>

lemma update_playlist_bad_tracks:
  assumes idx: "first_index pid (RAW_PLAYLISTS s) = Some i"
    and own: "user_id (RAW_PLAYLISTS s ! i) = id_u u"
    and ts: "tracks_upd body = Some ts"
    and bad: "t \<in> set ts" "TRACK_BY_ID s t = None"
  shows "update_playlist s pid body base_url u now =
    (Inl (HTTPException 400 (Unknown_track_ids (filter (\<lambda>tid. TRACK_BY_ID s tid = None) ts))),
     case name_upd body of
       None \<Rightarrow> s
     | Some n \<Rightarrow> s\<lparr>RAW_PLAYLISTS :=
                     (RAW_PLAYLISTS s)[i := (RAW_PLAYLISTS s ! i)\<lparr>name_p := strip n\<rparr>]\<rparr>)"
proof -
  have g: "get_playlist_or_404 s pid = Inr i" using idx by (simp add: get_playlist_or_404_def)
  have a: "assert_owner (RAW_PLAYLISTS s ! i) u = Inr ()" using own by (simp add: assert_owner_def)
  note v = validate_bad[OF bad]
  show ?thesis
    by (cases "name_upd body")
       (simp_all add: Let_def update_playlist_def g a v ts assign_def validate_RAW_PLAYLISTS)
qed

lemma pop_first_set: "set (pop_first pid ps) \<subseteq> set ps"
  by (induction ps) auto

lemma pop_first_distinct: "distinct (map id_p ps) \<Longrightarrow> distinct (map id_p (pop_first pid ps))"
proof (induction ps)
  case (Cons p ps)
  then show ?case using pop_first_set[of pid ps] by auto
qed simp

lemma delete_playlist_ok:
  assumes idx: "first_index pid (RAW_PLAYLISTS s) = Some i"
    and own: "user_id (RAW_PLAYLISTS s ! i) = id_u u"
  shows "delete_playlist s pid u =
    (Inr (), s\<lparr>RAW_PLAYLISTS := pop_first pid (RAW_PLAYLISTS s),
               PLAYLIST_DATA_FILE := pop_first pid (RAW_PLAYLISTS s)\<rparr>)"
  using idx own
  by (simp add: delete_playlist_def get_playlist_or_404_def assert_owner_def
      save_playlists_to_file_def)

section \<open>C2: ownership of single playlists\<close>

text \<open>
  Claim C2. In a store whose playlist ids are pairwise distinct, for every stored playlist
  \<open>p\<close> and every authenticated user \<open>u\<close> whose id differs from \<open>user_id p\<close>, each of
  \<open>get_playlist\<close>, \<open>update_playlist\<close> and \<open>delete_playlist\<close> on \<open>id_p p\<close> raises
  \<open>HTTPException 403\<close> and leaves the whole state as it was, so the playlist still exists
  unchanged; when the id matches no stored playlist each of them raises \<open>HTTPException 404\<close>.
  Distinct ids are the invariant \<open>ids_ok\<close> that every playlist request preserves
  (\<open>run_preserves_ids_ok\<close> below).
\<close>

theorem ownership_enforced:
  assumes "distinct (map id_p (RAW_PLAYLISTS s))"
  shows "(p \<in> set (RAW_PLAYLISTS s) \<and> id_u u \<noteq> user_id p \<longrightarrow>
            get_playlist s (id_p p) base_url u =
              (Inl (HTTPException 403 (Detail ''Forbidden'')), s) \<and>
            update_playlist s (id_p p) body base_url u now =
              (Inl (HTTPException 403 (Detail ''Forbidden'')), s) \<and>
            delete_playlist s (id_p p) u =
              (Inl (HTTPException 403 (Detail ''Forbidden'')), s)) \<and>
         (pid \<notin> id_p ` set (RAW_PLAYLISTS s) \<longrightarrow>
            get_playlist s pid base_url u =
              (Inl (HTTPException 404 (Detail ''Playlist not found'')), s) \<and>
            update_playlist s pid body base_url u now =
              (Inl (HTTPException 404 (Detail ''Playlist not found'')), s) \<and>
            delete_playlist s pid u =
              (Inl (HTTPException 404 (Detail ''Playlist not found'')), s))"
proof (intro conjI impI)
  assume h: "p \<in> set (RAW_PLAYLISTS s) \<and> id_u u \<noteq> user_id p"
  then obtain i where i: "first_index (id_p p) (RAW_PLAYLISTS s) = Some i"
    and at: "RAW_PLAYLISTS s ! i = p"
    using first_index_stored[OF assms, of p] by auto
  have g: "get_playlist_or_404 s (id_p p) = Inr i" using i by (simp add: get_playlist_or_404_def)
  have a: "assert_owner (RAW_PLAYLISTS s ! i) u = Inl (HTTPException 403 (Detail ''Forbidden''))"
    using h at by (auto simp: assert_owner_def)
  show "get_playlist s (id_p p) base_url u = (Inl (HTTPException 403 (Detail ''Forbidden'')), s)"
    by (simp add: get_playlist_def g a)
  show "update_playlist s (id_p p) body base_url u now =
          (Inl (HTTPException 403 (Detail ''Forbidden'')), s)"
    by (simp add: update_playlist_def g a)
  show "delete_playlist s (id_p p) u = (Inl (HTTPException 403 (Detail ''Forbidden'')), s)"
    by (simp add: delete_playlist_def g a)
next
  assume "pid \<notin> id_p ` set (RAW_PLAYLISTS s)"
  note g = not_found[OF this]
  show "get_playlist s pid base_url u =
          (Inl (HTTPException 404 (Detail ''Playlist not found'')), s)"
    by (simp add: get_playlist_def g)
  show "update_playlist s pid body base_url u now =
          (Inl (HTTPException 404 (Detail ''Playlist not found'')), s)"
    by (simp add: update_playlist_def g)
  show "delete_playlist s pid u = (Inl (HTTPException 404 (Detail ''Playlist not found'')), s)"
    by (simp add: delete_playlist_def g)
qed

text \<open>Unfolding sets for the evaluation of the handlers on concrete states.\<close>

lemmas demo_defs = demo_track_def alice_def bob_def mix_def demo_state_def fresh_state_def
lemmas op_defs = update_playlist_def get_playlist_def delete_playlist_def create_playlist_def
  get_playlist_or_404_def assert_owner_def assign_def validate_track_ids_def
  save_playlists_to_file_def populate_playlist_def next_playlist_id_def

text \<open>
  C2 on the example state: \<open>bob\<close> asks for \<open>alice\<close>'s playlist 1, and for the absent id 7.
\<close>

theorem ownership_enforced_witness:
  "distinct (map id_p (RAW_PLAYLISTS demo_state)) \<and> mix \<in> set (RAW_PLAYLISTS demo_state) \<and>
   id_u bob \<noteq> user_id mix \<and>
   get_playlist demo_state 1 (ascii ''http://h/'') bob =
     (Inl (HTTPException 403 (Detail ''Forbidden'')), demo_state) \<and>
   update_playlist demo_state 1 \<lparr>name_upd = Some (ascii ''Mine''), tracks_upd = None\<rparr>
       (ascii ''http://h/'') bob (ascii ''t1'') =
     (Inl (HTTPException 403 (Detail ''Forbidden'')), demo_state) \<and>
   delete_playlist demo_state 1 bob =
     (Inl (HTTPException 403 (Detail ''Forbidden'')), demo_state) \<and>
   RAW_PLAYLISTS demo_state = [mix] \<and>
   7 \<notin> id_p ` set (RAW_PLAYLISTS demo_state) \<and>
   delete_playlist demo_state 7 bob =
     (Inl (HTTPException 404 (Detail ''Playlist not found'')), demo_state)"
  using ownership_enforced [of demo_state mix bob "ascii ''http://h/''"
      "\<lparr>name_upd = Some (ascii ''Mine''), tracks_upd = None\<rparr>" "ascii ''t1''" 7]
  by (simp add: demo_defs)

section \<open>C3: playlist ids\<close>

lemma max_default_nonneg: "0 \<le> d \<Longrightarrow> list_all (\<lambda>x. 0 < x) xs \<Longrightarrow> 0 \<le> max_default xs d"
  using max_default_ge[of "hd xs" xs d] by (cases xs) auto

lemma next_playlist_id_pos:
  "list_all (\<lambda>i. 0 < i) (map id_p (RAW_PLAYLISTS s)) \<Longrightarrow> 0 < next_playlist_id s"
  using max_default_nonneg[of 0 "map id_p (RAW_PLAYLISTS s)"]
  by (simp add: next_playlist_id_def)

lemma next_playlist_id_notin: "next_playlist_id s \<notin> id_p ` set (RAW_PLAYLISTS s)"
  using next_playlist_id_fresh[of _ s] by fastforce

lemma create_playlist_cases:
  "create_playlist s body base_url u now =
    (if \<forall>t \<in> set (tracks_in body). TRACK_BY_ID s t \<noteq> None
     then (let new_pl = \<lparr>id_p = next_playlist_id s, user_id = id_u u,
                   name_p = strip (name_in body), tracks = tracks_in body,
                   created_at = Some now, updated_at = Some now\<rparr>;
               s' = s\<lparr>RAW_PLAYLISTS := RAW_PLAYLISTS s @ [new_pl],
                      PLAYLIST_DATA_FILE := RAW_PLAYLISTS s @ [new_pl]\<rparr>
           in (Inr (populate_playlist s' base_url new_pl), s'))
     else (Inl (HTTPException 400 (Unknown_track_ids
                 (filter (\<lambda>tid. TRACK_BY_ID s tid = None) (tracks_in body)))), s))"
proof (cases "\<forall>t \<in> set (tracks_in body). TRACK_BY_ID s t \<noteq> None")
  case True
  then show ?thesis using create_playlist_ok[OF True] by simp
next
  case False
  then obtain t where "t \<in> set (tracks_in body)" "TRACK_BY_ID s t = None" by auto
  from validate_bad[OF this] show ?thesis
    by (simp only: create_playlist_def if_not_P[OF False] sum.case)
qed

lemma create_preserves_ids_ok: "ids_ok s \<Longrightarrow> ids_ok (snd (create_playlist s body base_url u now))"
  using next_playlist_id_notin[of s] next_playlist_id_pos[of s]
  by (simp add: create_playlist_cases ids_ok_def Let_def)

lemma pop_first_all:
  "list_all P (map id_p ps) \<Longrightarrow> list_all P (map id_p (pop_first pid ps))"
  by (induction ps) auto

lemma delete_playlist_lists:
  "RAW_PLAYLISTS (snd (delete_playlist s pid u)) = RAW_PLAYLISTS s \<or>
   RAW_PLAYLISTS (snd (delete_playlist s pid u)) = pop_first pid (RAW_PLAYLISTS s)"
  by (simp add: delete_playlist_def save_playlists_to_file_def split: sum.splits)

lemma delete_preserves_ids_ok: "ids_ok s \<Longrightarrow> ids_ok (snd (delete_playlist s pid u))"
  using delete_playlist_lists[of s pid u]
  by (auto simp: ids_ok_def pop_first_distinct pop_first_all)

lemma map_id_p_update:
  "id_p q = id_p (ps ! i) \<Longrightarrow> map id_p (ps[i := q]) = map id_p ps"
  by (metis map_update list_update_id)

lemma update_playlist_ids:
  "map id_p (RAW_PLAYLISTS (snd (update_playlist s pid body base_url u now))) =
   map id_p (RAW_PLAYLISTS s)"
  by (simp add: update_playlist_def assign_def save_playlists_to_file_def Let_def map_id_p_update
      split: sum.splits option.splits)

lemma update_preserves_ids_ok: "ids_ok s \<Longrightarrow> ids_ok (snd (update_playlist s pid body base_url u now))"
  using update_playlist_ids[of s pid body base_url u now]
  by (simp add: ids_ok_def)

lemma handle_preserves_ids_ok: "ids_ok s \<Longrightarrow> ids_ok (handle s r)"
  by (cases r)
     (simp_all add: create_preserves_ids_ok update_preserves_ids_ok delete_preserves_ids_ok)

lemma run_preserves_ids_ok: "ids_ok s \<Longrightarrow> ids_ok (foldl handle s rs)"
  by (induction rs arbitrary: s) (simp_all add: handle_preserves_ids_ok)

lemma first_index_append_new:
  "pid \<notin> id_p ` set ps \<Longrightarrow> id_p q = pid \<Longrightarrow> first_index pid (ps @ [q]) = Some (length ps)"
  by (induction ps) auto

lemma pop_first_append_new:
  "pid \<notin> id_p ` set ps \<Longrightarrow> id_p q = pid \<Longrightarrow> pop_first pid (ps @ [q]) = ps"
  by (induction ps) auto

text \<open>
  Claim C3, as amended. A \<open>create_playlist\<close> whose track ids are all in the catalog succeeds
  and assigns the id \<open>max_default ids 0 + 1\<close>, the largest stored id (0 when none is stored)
  plus one. That id is larger than every id stored at that moment, and it is appended to the
  stored ids. From a state whose stored ids are pairwise distinct and positive, the ids stay
  pairwise distinct and positive after the create and after any further sequence of create,
  update and delete requests. Ids of deleted playlists are not remembered: when the owner
  deletes the playlist just created, the delete succeeds, the stored and saved playlists are
  those from before the create, and the next successful create, by any user, is assigned the
  same id again.
\<close>

theorem create_assigns_max_plus_one:
  assumes "\<forall>t \<in> set (tracks_in body). TRACK_BY_ID s t \<noteq> None"
  shows "\<exists>out s'. create_playlist s body base_url u now = (Inr out, s') \<and>
           id_out out = max_default (map id_p (RAW_PLAYLISTS s)) 0 + 1 \<and>
           map id_p (RAW_PLAYLISTS s') = map id_p (RAW_PLAYLISTS s) @ [id_out out] \<and>
           (\<forall>p \<in> set (RAW_PLAYLISTS s). id_p p < id_out out) \<and>
           (ids_ok s \<longrightarrow> ids_ok s' \<and> ids_ok (foldl handle s' rs)) \<and>
           (\<exists>s''. delete_playlist s' (id_out out) u = (Inr (), s'') \<and>
                  RAW_PLAYLISTS s'' = RAW_PLAYLISTS s \<and>
                  PLAYLIST_DATA_FILE s'' = RAW_PLAYLISTS s \<and>
                  ((\<forall>t \<in> set (tracks_in body'). TRACK_BY_ID s t \<noteq> None) \<longrightarrow>
                     (\<exists>out2 s3. create_playlist s'' body' base_url' u' now' = (Inr out2, s3) \<and>
                                id_out out2 = id_out out)))"
proof -
  let ?new = "\<lparr>id_p = next_playlist_id s, user_id = id_u u,
                   name_p = strip (name_in body), tracks = tracks_in body,
                   created_at = Some now, updated_at = Some now\<rparr>"
  let ?s' = "s\<lparr>RAW_PLAYLISTS := RAW_PLAYLISTS s @ [?new],
                PLAYLIST_DATA_FILE := RAW_PLAYLISTS s @ [?new]\<rparr>"
  let ?out = "populate_playlist ?s' base_url ?new"
  let ?s'' = "?s'\<lparr>RAW_PLAYLISTS := RAW_PLAYLISTS s, PLAYLIST_DATA_FILE := RAW_PLAYLISTS s\<rparr>"
  have c: "create_playlist s body base_url u now = (Inr ?out, ?s')"
    using create_playlist_ok[OF assms] by (simp add: Let_def)
  have n: "id_out ?out = next_playlist_id s" by (simp add: populate_playlist_def)
  have i: "id_out ?out = max_default (map id_p (RAW_PLAYLISTS s)) 0 + 1"
    by (simp add: populate_playlist_def next_playlist_id_def)
  have m: "map id_p (RAW_PLAYLISTS ?s') = map id_p (RAW_PLAYLISTS s) @ [id_out ?out]"
    by (simp add: populate_playlist_def)
  have f: "\<forall>p \<in> set (RAW_PLAYLISTS s). id_p p < id_out ?out"
    by (simp add: populate_playlist_def next_playlist_id_fresh)
  have k: "ids_ok s \<longrightarrow> ids_ok ?s' \<and> ids_ok (foldl handle ?s' rs)"
  proof
    assume "ids_ok s"
    from create_preserves_ids_ok[OF this, of body base_url u now] have "ids_ok ?s'"
      by (simp add: c)
    then show "ids_ok ?s' \<and> ids_ok (foldl handle ?s' rs)"
      by (simp add: run_preserves_ids_ok)
  qed
  have idx: "first_index (next_playlist_id s) (RAW_PLAYLISTS s @ [?new]) =
               Some (length (RAW_PLAYLISTS s))"
    using first_index_append_new[OF next_playlist_id_notin[of s], of ?new] by simp
  have pop: "pop_first (next_playlist_id s) (RAW_PLAYLISTS s @ [?new]) = RAW_PLAYLISTS s"
    using pop_first_append_new[OF next_playlist_id_notin[of s], of ?new] by simp
  have "delete_playlist ?s' (next_playlist_id s) u = (Inr (), ?s'')"
    using delete_playlist_ok[of "next_playlist_id s" ?s' "length (RAW_PLAYLISTS s)" u] idx pop
    by simp
  then have d: "delete_playlist ?s' (id_out ?out) u = (Inr (), ?s'')"
    by (simp only: n)
  have again: "(\<forall>t \<in> set (tracks_in body'). TRACK_BY_ID s t \<noteq> None) \<longrightarrow>
      (\<exists>out2 s3. create_playlist ?s'' body' base_url' u' now' = (Inr out2, s3) \<and>
                 id_out out2 = id_out ?out)"
  proof
    assume "\<forall>t \<in> set (tracks_in body'). TRACK_BY_ID s t \<noteq> None"
    then have v: "\<forall>t \<in> set (tracks_in body'). TRACK_BY_ID ?s'' t \<noteq> None" by simp
    have "next_playlist_id ?s'' = next_playlist_id s" by (simp add: next_playlist_id_def)
    then show "\<exists>out2 s3. create_playlist ?s'' body' base_url' u' now' = (Inr out2, s3) \<and>
                 id_out out2 = id_out ?out"
      using create_playlist_ok[OF v, of base_url' u' now']
      by (simp add: Let_def populate_playlist_def)
  qed
  have del: "\<exists>s''. delete_playlist ?s' (id_out ?out) u = (Inr (), s'') \<and>
                  RAW_PLAYLISTS s'' = RAW_PLAYLISTS s \<and>
                  PLAYLIST_DATA_FILE s'' = RAW_PLAYLISTS s \<and>
                  ((\<forall>t \<in> set (tracks_in body'). TRACK_BY_ID s t \<noteq> None) \<longrightarrow>
                     (\<exists>out2 s3. create_playlist s'' body' base_url' u' now' = (Inr out2, s3) \<and>
                                id_out out2 = id_out ?out))"
    using d again by (intro exI[of _ ?s'']) simp
  from c i m f k del show ?thesis by blast
qed

text \<open>The full unfolding set for closed examples.\<close>

lemmas eval_defs = demo_defs op_defs ascii_def strip_def isspace_def ids_ok_def Let_def

text \<open>
  C3 on the example state: the next playlist gets id 2, and after \<open>bob\<close> deletes it the next
  one gets id 2 again.
\<close>

theorem create_assigns_max_plus_one_witness:
  "TRACK_BY_ID demo_state 1 \<noteq> None \<and> ids_ok demo_state \<and>
   map_sum id id_out (fst (create_playlist demo_state \<lparr>name_in = ascii ''Mix2'', tracks_in = [1]\<rparr>
      (ascii ''http://h/'') bob (ascii ''t1''))) = Inr 2 \<and>
   map id_p (RAW_PLAYLISTS (snd (create_playlist demo_state
      \<lparr>name_in = ascii ''Mix2'', tracks_in = [1]\<rparr> (ascii ''http://h/'') bob (ascii ''t1'')))) = [1, 2] \<and>
   map_sum id id_out (fst (create_playlist
      (snd (delete_playlist (snd (create_playlist demo_state
          \<lparr>name_in = ascii ''Mix2'', tracks_in = [1]\<rparr> (ascii ''http://h/'') bob (ascii ''t1''))) 2 bob))
      \<lparr>name_in = ascii ''Mix3'', tracks_in = [1, 1]\<rparr> (ascii ''http://h/'') alice (ascii ''t2''))) = Inr 2"
  using create_assigns_max_plus_one [where body = "\<lparr>name_in = ascii ''Mix2'', tracks_in = [1]\<rparr>"
      and s = demo_state and base_url = "ascii ''http://h/''" and u = bob and now = "ascii ''t1''"
      and rs = "[]" and body' = "\<lparr>name_in = ascii ''Mix3'', tracks_in = [1, 1]\<rparr>"
      and base_url' = "ascii ''http://h/''" and u' = alice and now' = "ascii ''t2''"]
  by (simp add: eval_defs)

text \<open>
  Claim C3 as stated fails: from the empty store, a create assigns id 1, the owner deletes
  playlist 1, and the next create assigns id 1 again.
\<close>

theorem deleted_id_assigned_again:
  "map_sum id id_out (fst (create_playlist fresh_state \<lparr>name_in = ascii ''Mix'', tracks_in = [1]\<rparr>
      (ascii ''http://h/'') alice (ascii ''t1''))) = Inr 1 \<and>
   RAW_PLAYLISTS (foldl handle fresh_state
      [Create \<lparr>name_in = ascii ''Mix'', tracks_in = [1]\<rparr> (ascii ''http://h/'') alice (ascii ''t1''),
       Delete 1 alice]) = [] \<and>
   map_sum id id_out (fst (create_playlist
      (foldl handle fresh_state
        [Create \<lparr>name_in = ascii ''Mix'', tracks_in = [1]\<rparr> (ascii ''http://h/'') alice (ascii ''t1''),
         Delete 1 alice])
      \<lparr>name_in = ascii ''Other'', tracks_in = []\<rparr> (ascii ''http://h/'') bob (ascii ''t2''))) = Inr 1"
  by (simp add: eval_defs)

section \<open>C4: stored playlist names\<close>

text \<open>
  Claim C4 as stated fails: creating a playlist named with three spaces succeeds and stores
  the empty name.
\<close>

theorem blank_name_is_stored_empty:
  "fst (create_playlist fresh_state \<lparr>name_in = ascii ''   '', tracks_in = []\<rparr>
      (ascii ''http://h/'') alice (ascii ''t1'')) =
     Inr \<lparr>id_out = 1, user_id_out = 1, name_out = [], tracks_out = [],
          created_at_out = Some (ascii ''t1''), updated_at_out = Some (ascii ''t1'')\<rparr> \<and>
   map name_p (RAW_PLAYLISTS (snd (create_playlist fresh_state
      \<lparr>name_in = ascii ''   '', tracks_in = []\<rparr> (ascii ''http://h/'') alice (ascii ''t1'')))) = [[]] \<and>
   strip [] = []"
  by (simp add: eval_defs)

section \<open>C1: an update with an unknown track id\<close>

text \<open>
  Claim C1 at a concrete request. \<open>alice\<close> updates her playlist 1 with the new name
  \<open>New\<close> and the track ids \<open>[99]\<close>, and 99 is not in the catalog. The call raises
  \<open>HTTPException 400\<close>, and the file is not rewritten, but the stored playlist already
  carries the new name (it was \<open>Old\<close>), which a following \<open>get_playlist\<close> returns.
\<close>

theorem update_playlist_unknown_track_renames:
  "update_playlist demo_state 1 \<lparr>name_upd = Some (ascii ''New''), tracks_upd = Some [99]\<rparr>
     (ascii ''http://h/'') alice (ascii ''t1'')
   = (Inl (HTTPException 400 (Unknown_track_ids [99])),
      demo_state\<lparr>RAW_PLAYLISTS := [mix\<lparr>name_p := ascii ''New''\<rparr>]\<rparr>) \<and>
   name_p mix = ascii ''Old'' \<and>
   map_sum id name_out (fst (get_playlist (snd (update_playlist demo_state 1
       \<lparr>name_upd = Some (ascii ''New''), tracks_upd = Some [99]\<rparr>
       (ascii ''http://h/'') alice (ascii ''t1''))) 1 (ascii ''http://h/'') alice)) =
     Inr (ascii ''New'')"
  by (simp add: eval_defs)

text \<open>
  Claim C4, as amended. A \<open>create_playlist\<close> whose track ids are all in the catalog, and an
  \<open>update_playlist\<close> by the owner that supplies a name (and only known track ids), succeed
  and store and persist as the name the supplied name with the whitespace at both ends
  removed; stripping that name again changes nothing. Whether the stored name is empty is
  not checked.
\<close>

theorem stored_name_is_stripped:
  "((\<forall>t \<in> set (tracks_in body). TRACK_BY_ID s t \<noteq> None) \<longrightarrow>
      (\<exists>out s'. create_playlist s body base_url u now = (Inr out, s') \<and>
         name_out out = strip (name_in body) \<and>
         butlast (RAW_PLAYLISTS s') = RAW_PLAYLISTS s \<and>
         name_p (last (RAW_PLAYLISTS s')) = strip (name_in body) \<and>
         PLAYLIST_DATA_FILE s' = RAW_PLAYLISTS s')) \<and>
   (first_index pid (RAW_PLAYLISTS s) = Some i \<and> user_id (RAW_PLAYLISTS s ! i) = id_u u \<and>
    name_upd upd = Some n \<and>
    (case tracks_upd upd of None \<Rightarrow> True | Some ts \<Rightarrow> \<forall>t \<in> set ts. TRACK_BY_ID s t \<noteq> None) \<longrightarrow>
      (\<exists>out s'. update_playlist s pid upd base_url u now = (Inr out, s') \<and>
         name_out out = strip n \<and>
         name_p (RAW_PLAYLISTS s' ! i) = strip n \<and>
         PLAYLIST_DATA_FILE s' = RAW_PLAYLISTS s')) \<and>
   strip (strip n) = strip n"
proof (intro conjI impI)
  assume "\<forall>t \<in> set (tracks_in body). TRACK_BY_ID s t \<noteq> None"
  from create_playlist_ok[OF this, of base_url u now]
  show "\<exists>out s'. create_playlist s body base_url u now = (Inr out, s') \<and>
         name_out out = strip (name_in body) \<and>
         butlast (RAW_PLAYLISTS s') = RAW_PLAYLISTS s \<and>
         name_p (last (RAW_PLAYLISTS s')) = strip (name_in body) \<and>
         PLAYLIST_DATA_FILE s' = RAW_PLAYLISTS s'"
    by (simp add: Let_def populate_playlist_def)
next
  assume h: "first_index pid (RAW_PLAYLISTS s) = Some i \<and> user_id (RAW_PLAYLISTS s ! i) = id_u u \<and>
    name_upd upd = Some n \<and>
    (case tracks_upd upd of None \<Rightarrow> True | Some ts \<Rightarrow> \<forall>t \<in> set ts. TRACK_BY_ID s t \<noteq> None)"
  then have len: "i < length (RAW_PLAYLISTS s)" using first_index_Some by blast
  from h have "update_playlist s pid upd base_url u now =
    (let old = RAW_PLAYLISTS s ! i;
         new = old\<lparr>name_p := (case name_upd upd of None \<Rightarrow> name_p old | Some n \<Rightarrow> strip n),
                   tracks := (case tracks_upd upd of None \<Rightarrow> tracks old | Some ts \<Rightarrow> ts),
                   updated_at := Some now\<rparr>;
         s' = s\<lparr>RAW_PLAYLISTS := (RAW_PLAYLISTS s)[i := new],
                PLAYLIST_DATA_FILE := (RAW_PLAYLISTS s)[i := new]\<rparr>
     in (Inr (populate_playlist s' base_url new), s'))"
    by (intro update_playlist_ok) simp_all
  with h len
  show "\<exists>out s'. update_playlist s pid upd base_url u now = (Inr out, s') \<and>
         name_out out = strip n \<and>
         name_p (RAW_PLAYLISTS s' ! i) = strip n \<and>
         PLAYLIST_DATA_FILE s' = RAW_PLAYLISTS s'"
    by (simp add: Let_def populate_playlist_def)
next
  show "strip (strip n) = strip n" by (rule strip_idem)
qed

text \<open>C4 on the example state: \<open>"  Road trip "\<close> and \<open>" Gym  "\<close> are stored stripped.\<close>

theorem stored_name_is_stripped_witness:
  "TRACK_BY_ID demo_state 1 \<noteq> None \<and>
   map name_p (RAW_PLAYLISTS (snd (create_playlist demo_state
      \<lparr>name_in = ascii ''  Road trip '', tracks_in = [1]\<rparr> (ascii ''http://h/'') alice (ascii ''t1''))))
     = [ascii ''Old'', ascii ''Road trip''] \<and>
   first_index 1 (RAW_PLAYLISTS demo_state) = Some 0 \<and>
   user_id (RAW_PLAYLISTS demo_state ! 0) = id_u alice \<and>
   map name_p (RAW_PLAYLISTS (snd (update_playlist demo_state 1
      \<lparr>name_upd = Some (ascii '' Gym  ''), tracks_upd = None\<rparr> (ascii ''http://h/'') alice (ascii ''t1''))))
     = [ascii ''Gym'']"
  using stored_name_is_stripped [of "\<lparr>name_in = ascii ''  Road trip '', tracks_in = [1]\<rparr>" demo_state
      "ascii ''http://h/''" alice "ascii ''t1''" 1 0
      "\<lparr>name_upd = Some (ascii '' Gym  ''), tracks_upd = None\<rparr>" "ascii '' Gym  ''"]
  by (simp add: eval_defs)

section \<open>C8: partial update\<close>

text \<open>
  Claim C8. When \<open>pid\<close> resolves to the stored playlist at position \<open>i\<close>, the caller owns it
  and every supplied track id is in the catalog, \<open>update_playlist\<close> succeeds. Afterwards the
  name is the stripped supplied name if a name was supplied and the prior name otherwise; the
  tracks are the supplied ones if tracks were supplied and the prior ones otherwise;
  \<open>updated_at\<close> is the time of the call in every case; \<open>id\<close>, \<open>user_id\<close> and
  \<open>created_at\<close> are the prior ones; every other playlist is untouched; and the file holds
  the new list.
\<close>

theorem partial_update:
  assumes "first_index pid (RAW_PLAYLISTS s) = Some i"
    and "user_id (RAW_PLAYLISTS s ! i) = id_u u"
    and "case tracks_upd body of None \<Rightarrow> True
         | Some ts \<Rightarrow> \<forall>t \<in> set ts. TRACK_BY_ID s t \<noteq> None"
  shows "\<exists>out s'. update_playlist s pid body base_url u now = (Inr out, s') \<and>
           length (RAW_PLAYLISTS s') = length (RAW_PLAYLISTS s) \<and>
           name_p (RAW_PLAYLISTS s' ! i) =
             (case name_upd body of None \<Rightarrow> name_p (RAW_PLAYLISTS s ! i) | Some n \<Rightarrow> strip n) \<and>
           tracks (RAW_PLAYLISTS s' ! i) =
             (case tracks_upd body of None \<Rightarrow> tracks (RAW_PLAYLISTS s ! i) | Some ts \<Rightarrow> ts) \<and>
           updated_at (RAW_PLAYLISTS s' ! i) = Some now \<and>
           id_p (RAW_PLAYLISTS s' ! i) = id_p (RAW_PLAYLISTS s ! i) \<and>
           user_id (RAW_PLAYLISTS s' ! i) = user_id (RAW_PLAYLISTS s ! i) \<and>
           created_at (RAW_PLAYLISTS s' ! i) = created_at (RAW_PLAYLISTS s ! i) \<and>
           (\<forall>j. j \<noteq> i \<longrightarrow> RAW_PLAYLISTS s' ! j = RAW_PLAYLISTS s ! j) \<and>
           PLAYLIST_DATA_FILE s' = RAW_PLAYLISTS s' \<and>
           out = populate_playlist s' base_url (RAW_PLAYLISTS s' ! i)"
proof -
  have len: "i < length (RAW_PLAYLISTS s)" using first_index_Some[OF assms(1)] by simp
  show ?thesis
    using update_playlist_ok[OF assms, of base_url now] len
    by (simp add: Let_def)
qed

text \<open>
  C8 on the example state: a new name alone keeps the tracks, and an empty update changes
  \<open>updated_at\<close> only.
\<close>

theorem partial_update_witness:
  "first_index 1 (RAW_PLAYLISTS demo_state) = Some 0 \<and>
   user_id (RAW_PLAYLISTS demo_state ! 0) = id_u alice \<and>
   RAW_PLAYLISTS (snd (update_playlist demo_state 1
      \<lparr>name_upd = Some (ascii ''New''), tracks_upd = None\<rparr> (ascii ''http://h/'') alice (ascii ''t1'')))
     = [mix\<lparr>name_p := ascii ''New'', updated_at := Some (ascii ''t1'')\<rparr>] \<and>
   RAW_PLAYLISTS (snd (update_playlist demo_state 1
      \<lparr>name_upd = None, tracks_upd = None\<rparr> (ascii ''http://h/'') alice (ascii ''t1'')))
     = [mix\<lparr>updated_at := Some (ascii ''t1'')\<rparr>]"
  using partial_update [of 1 demo_state 0 alice
      "\<lparr>name_upd = Some (ascii ''New''), tracks_upd = None\<rparr>" "ascii ''http://h/''" "ascii ''t1''"]
  by (simp add: eval_defs)

section \<open>The example libraries meet the assumptions\<close>

lemma digits_range: "c \<in> set (digits n) \<Longrightarrow> 48 \<le> c \<and> c \<le> 57"
proof (induction n rule: digits.induct)
  case (1 n)
  show ?case
  proof (cases "n < 10")
    case True
    with "1.prems" show ?thesis by (subst (asm) digits.simps) simp
  next
    case False
    with "1.prems" have "c \<in> set (digits (n div 10)) \<or> c = 48 + n mod 10"
      by (subst (asm) digits.simps) auto
    then show ?thesis using "1.IH"[OF False] by auto
  qed
qed

lemma digits_nonempty: "digits n \<noteq> []"
  by (subst digits.simps) simp

lemma decimal_append:
  "decimal (xs @ ys) acc = (case decimal xs acc of None \<Rightarrow> None | Some a \<Rightarrow> decimal ys a)"
  by (induction xs arbitrary: acc) auto

lemma decimal_digits: "decimal (digits n) acc = Some (acc * 10 ^ length (digits n) + n)"
proof (induction n arbitrary: acc rule: digits.induct)
  case (1 n)
  show ?case
  proof (cases "n < 10")
    case True
    then show ?thesis by (subst (1 2) digits.simps) simp
  next
    case False
    have d: "digits n = digits (n div 10) @ [48 + n mod 10]"
      using False by (subst digits.simps) simp
    show ?thesis
      unfolding d using "1.IH"[OF False]
      by (simp add: decimal_append algebra_simps)
  qed
qed

lemma strip_clean:
  assumes "t \<noteq> []" "\<not> isspace (hd t)" "\<not> isspace (last t)"
  shows "strip t = t"
proof -
  have a: "dropWhile isspace t = t" using assms by (cases t) auto
  have "rev t \<noteq> []" "\<not> isspace (hd (rev t))" using assms by (simp_all add: hd_rev)
  then have b: "dropWhile isspace (rev t) = rev t" by (cases "rev t") auto
  show ?thesis by (simp add: strip_def a b)
qed

lemma digit_not_space: "48 \<le> c \<Longrightarrow> c \<le> 57 \<Longrightarrow> \<not> isspace c"
  by (simp add: isspace_def)

lemma strip_digits: "strip (digits n) = digits n"
proof (rule strip_clean)
  show "digits n \<noteq> []" by (rule digits_nonempty)
  have "hd (digits n) \<in> set (digits n)" "last (digits n) \<in> set (digits n)"
    using digits_nonempty by simp_all
  then show "\<not> isspace (hd (digits n))" "\<not> isspace (last (digits n))"
    using digits_range digit_not_space by blast+
qed

lemma decimal_int_str_int: "decimal_int (str_int n) = Some n"
proof (cases "n < 0")
  case False
  obtain c cs where d: "digits (nat n) = c # cs" using digits_nonempty by (cases "digits (nat n)") auto
  then have "c \<in> set (digits (nat n))" by simp
  then have r: "48 \<le> c \<and> c \<le> 57" by (rule digits_range)
  have "decimal (c # cs) 0 = Some (nat n)" using decimal_digits[of "nat n" 0] d by simp
  then show ?thesis using False r d strip_digits[of "nat n"]
    by (simp add: decimal_int_def str_int_def)
next
  case True
  let ?t = "45 # digits (nat (- n))"
  have "last ?t \<in> set (digits (nat (- n)))" using digits_nonempty by simp
  then have "\<not> isspace (last ?t)" using digits_range digit_not_space by blast
  then have s: "strip ?t = ?t" by (intro strip_clean) (simp_all add: isspace_def)
  show ?thesis using True s decimal_digits[of "nat (- n)" 0] digits_nonempty
    by (simp add: decimal_int_def str_int_def)
qed

lemma demo_libs_sound:
  "pwd_sound demo_libs \<and> pwd_exact demo_libs \<and> jwt_sound demo_libs \<and> int_str_sound demo_libs"
proof (intro conjI)
  show "pwd_sound demo_libs"
    by (auto simp: pwd_sound_def demo_libs_def demo_verify_def demo_hash_def ascii_def
        split: if_splits)
  show "pwd_exact demo_libs"
    unfolding pwd_exact_def
  proof (intro allI impI)
    fix p h
    assume "ctx_verify demo_libs p h = Inr True"
    then have pre: "take 6 h = ascii ''$demo$''" and len: "\<not> 4096 < length p"
      and rest: "(case drop 6 h of [] \<Rightarrow> False | salt # rest \<Rightarrow> rest = 36 # p)"
      by (auto simp: demo_libs_def demo_verify_def split: if_splits)
    from rest obtain salt where "drop 6 h = salt # 36 # p"
      by (cases "drop 6 h") auto
    then have "h = ascii ''$demo$'' @ [salt, 36] @ p"
      using pre append_take_drop_id[of 6 h] by simp
    then have "ctx_hash demo_libs salt p = Inr h"
      using len by (simp add: demo_libs_def demo_hash_def)
    then show "\<exists>salt. ctx_hash demo_libs salt p = Inr h" by blast
  qed
  show "jwt_sound demo_libs" by (simp add: jwt_sound_def demo_libs_def)
  show "int_str_sound demo_libs" by (simp add: int_str_sound_def demo_libs_def decimal_int_str_int)
qed

text \<open>Unfolding sets for the auth handlers and the example libraries.\<close>

lemmas auth_defs = signup_def login_def get_current_user_def create_access_token_def
  hash_password_def verify_password_def ensure_str_def save_users_to_file_def
  next_user_id_def to_public_user_def str_int_def
lemmas lib_defs = demo_libs_def demo_config_def demo_hash_def demo_verify_def demo_email_def
  decimal_int_def

section \<open>C10: order of the signup checks\<close>

text \<open>
  Claim C10. When the lower-cased, stripped email is already a key of \<open>USERS_BY_EMAIL\<close>,
  \<open>signup\<close> raises \<open>HTTPException 400\<close> "Email already registered" whatever the password is,
  so a password shorter than 6 characters is not reported; the short password is reported
  only for an email that is not registered. In both cases the state is returned unchanged.
\<close>

theorem signup_duplicate_email_first:
  "(USERS_BY_EMAIL s (strip (str_lower L (email_su body))) \<noteq> None \<longrightarrow>
      signup L cfg s body salt now =
        (Inl (HTTPException 400 (Detail ''Email already registered'')), s)) \<and>
   (USERS_BY_EMAIL s (strip (str_lower L (email_su body))) = None \<and>
    length (password_su body) < 6 \<longrightarrow>
      signup L cfg s body salt now =
        (Inl (HTTPException 400 (Detail ''Password must be at least 6 characters'')), s))"
  by (simp add: signup_def Let_def)

text \<open>
  C10 on the example state: \<open>" A@X.com "\<close> with the password \<open>abc\<close> is a duplicate,
  \<open>c@x.com\<close> with the same password is a weak password.
\<close>

theorem signup_duplicate_email_first_witness:
  "USERS_BY_EMAIL demo_state
     (strip (str_lower demo_libs (ascii '' A@X.com ''))) = Some alice \<and>
   length (ascii ''abc'') < 6 \<and>
   signup demo_libs demo_config demo_state
     \<lparr>email_su = ascii '' A@X.com '', password_su = ascii ''abc'', name_su = None\<rparr> 5 1000 =
     (Inl (HTTPException 400 (Detail ''Email already registered'')), demo_state) \<and>
   USERS_BY_EMAIL demo_state (strip (str_lower demo_libs (ascii ''c@x.com''))) = None \<and>
   signup demo_libs demo_config demo_state
     \<lparr>email_su = ascii ''c@x.com'', password_su = ascii ''abc'', name_su = None\<rparr> 5 1000 =
     (Inl (HTTPException 400 (Detail ''Password must be at least 6 characters'')), demo_state)"
  using signup_duplicate_email_first [of demo_state demo_libs
      "\<lparr>email_su = ascii '' A@X.com '', password_su = ascii ''abc'', name_su = None\<rparr>"
      demo_config 5 1000]
  by (simp add: eval_defs auth_defs lib_defs)

section \<open>C7 and C9: resolving a token to a user\<close>

lemma scan_users_found:
  assumes "int_of_str L t = Some n"
  shows "scan_users L us t =
     (case find (\<lambda>u. id_u u = n) us of
        Some u \<Rightarrow> Inr u
      | None \<Rightarrow> Inl (HTTPException 401 (Detail ''User not found'')))"
  using assms by (induction us) auto

lemma scan_users_unparsed:
  assumes "int_of_str L t = None"
  shows "scan_users L us t =
     (if us = [] then Inl (HTTPException 401 (Detail ''User not found'')) else Inl ValueError)"
  using assms by (cases us) auto

lemma find_present:
  "u \<in> set us \<Longrightarrow> \<exists>v. find (\<lambda>w. id_u w = id_u u) us = Some v \<and> v \<in> set us \<and> id_u v = id_u u"
  by (induction us) auto

text \<open>
  Claim C7. Let the JWT library and \<open>int\<close> meet the assumptions above, and let \<open>u\<close> be a
  stored user. A token created for \<open>str(id)\<close> of \<open>u\<close> at time \<open>now\<close> and presented, with
  the same secret, at a time \<open>now'\<close> before its expiry resolves to a stored user with the id
  of \<open>u\<close>: the first one in \<open>RAW_USERS\<close> with that id.
\<close>

theorem token_round_trip:
  assumes lib: "jwt_sound L" "int_str_sound L"
    and present: "u \<in> set (RAW_USERS s)"
    and future: "now' < now + (case expires_delta of
                                 None \<Rightarrow> 60 * ACCESS_TOKEN_EXPIRE_MINUTES cfg
                               | Some d \<Rightarrow> if d = 0 then 60 * ACCESS_TOKEN_EXPIRE_MINUTES cfg else d)"
  shows "\<exists>v. get_current_user L cfg s
                (Some (create_access_token L cfg
                         \<lparr>sub = Some (str_int (id_u u)), exp_at = None\<rparr> expires_delta now)) now'
              = Inr v \<and> v \<in> set (RAW_USERS s) \<and> id_u v = id_u u \<and>
              find (\<lambda>w. id_u w = id_u u) (RAW_USERS s) = Some v"
proof -
  let ?e = "now + (case expires_delta of
                     None \<Rightarrow> 60 * ACCESS_TOKEN_EXPIRE_MINUTES cfg
                   | Some d \<Rightarrow> if d = 0 then 60 * ACCESS_TOKEN_EXPIRE_MINUTES cfg else d)"
  let ?c = "\<lparr>sub = Some (str_int (id_u u)), exp_at = Some ?e\<rparr>"
  have tok: "create_access_token L cfg \<lparr>sub = Some (str_int (id_u u)), exp_at = None\<rparr>
               expires_delta now = jwt_encode L ?c (SECRET_KEY cfg)"
    by (simp add: create_access_token_def Let_def)
  have dec: "jwt_decode L (jwt_encode L ?c (SECRET_KEY cfg)) (SECRET_KEY cfg) now' = Inr ?c"
    using lib(1) future unfolding jwt_sound_def by simp
  have int: "int_of_str L (str_int (id_u u)) = Some (id_u u)"
    using lib(2) unfolding int_str_sound_def by simp
  obtain v where v: "find (\<lambda>w. id_u w = id_u u) (RAW_USERS s) = Some v"
      "v \<in> set (RAW_USERS s)" "id_u v = id_u u"
    using find_present[OF present] by blast
  have "get_current_user L cfg s (Some (jwt_encode L ?c (SECRET_KEY cfg))) now' = Inr v"
    by (simp add: get_current_user_def dec scan_users_found[OF int] v(1))
  with tok v show ?thesis by simp
qed

text \<open>C7 on the example state: \<open>bob\<close>'s token, validated in the second it was made.\<close>

theorem token_round_trip_witness:
  "jwt_sound demo_libs \<and> int_str_sound demo_libs \<and> bob \<in> set (RAW_USERS demo_state) \<and>
   (1000::int) < 1000 + 60 * ACCESS_TOKEN_EXPIRE_MINUTES demo_config \<and>
   get_current_user demo_libs demo_config demo_state
     (Some (create_access_token demo_libs demo_config
        \<lparr>sub = Some (str_int (id_u bob)), exp_at = None\<rparr> None 1000)) 1000 = Inr bob"
  using token_round_trip [where L = demo_libs and u = bob and s = demo_state and now = 1000
      and now' = 1000 and expires_delta = None and cfg = demo_config] demo_libs_sound
  by (simp add: eval_defs auth_defs lib_defs digits.simps)

text \<open>
  Claim C9, as amended. For a token that the JWT library decodes to a payload whose subject
  is a text that \<open>int\<close> does not accept: when at least one user is stored,
  \<open>get_current_user\<close> raises the \<open>ValueError\<close> of the conversion, which no handler maps to
  401; when no user is stored, the loop body with the conversion never runs and the result is
  \<open>HTTPException 401\<close> "User not found".
\<close>

theorem non_numeric_subject:
  assumes "jwt_decode L t (SECRET_KEY cfg) now = Inr payload"
    and "sub payload = Some uid"
    and "int_of_str L uid = None"
  shows "get_current_user L cfg s (Some t) now =
           (if RAW_USERS s = [] then Inl (HTTPException 401 (Detail ''User not found''))
            else Inl ValueError)"
  using assms by (simp add: get_current_user_def scan_users_unparsed)

text \<open>C9 on the example state, which stores two users: the subject \<open>abc\<close> raises.\<close>

theorem non_numeric_subject_witness:
  "jwt_decode demo_libs (\<lparr>sub = Some (ascii ''abc''), exp_at = Some 2000\<rparr>, SECRET_KEY demo_config)
     (SECRET_KEY demo_config) 1000 = Inr \<lparr>sub = Some (ascii ''abc''), exp_at = Some 2000\<rparr> \<and>
   int_of_str demo_libs (ascii ''abc'') = None \<and>
   get_current_user demo_libs demo_config demo_state
     (Some (\<lparr>sub = Some (ascii ''abc''), exp_at = Some 2000\<rparr>, SECRET_KEY demo_config)) 1000 =
     Inl ValueError"
  using non_numeric_subject [of demo_libs
      "(\<lparr>sub = Some (ascii ''abc''), exp_at = Some 2000\<rparr>, SECRET_KEY demo_config)"
      demo_config 1000 "\<lparr>sub = Some (ascii ''abc''), exp_at = Some 2000\<rparr>" "ascii ''abc''" demo_state]
  by (simp add: eval_defs auth_defs lib_defs)

text \<open>
  Claim C9 as stated fails: with no stored user, the valid token with subject \<open>abc\<close> is
  answered with 401.
\<close>

theorem non_numeric_subject_no_users:
  "jwt_decode demo_libs (\<lparr>sub = Some (ascii ''abc''), exp_at = Some 2000\<rparr>, SECRET_KEY demo_config)
     (SECRET_KEY demo_config) 1000 = Inr \<lparr>sub = Some (ascii ''abc''), exp_at = Some 2000\<rparr> \<and>
   int_of_str demo_libs (ascii ''abc'') = None \<and>
   RAW_USERS fresh_state = [] \<and>
   get_current_user demo_libs demo_config fresh_state
     (Some (\<lparr>sub = Some (ascii ''abc''), exp_at = Some 2000\<rparr>, SECRET_KEY demo_config)) 1000 =
     Inl (HTTPException 401 (Detail ''User not found''))"
  by (simp add: eval_defs auth_defs lib_defs)

section \<open>C6: signup, then login\<close>

text \<open>
  While the user record is built, \<open>signup\<close> hashes the password; an exception of the
  password context leaves the handler there, before anything is stored.
\<close>

lemma signup_hash_fails:
  assumes "USERS_BY_EMAIL s (strip (str_lower L (email_su body))) = None"
    and "6 \<le> length (password_su body)"
    and "ctx_hash L salt (password_su body) = Inl err"
  shows "signup L cfg s body salt now = (Inl err, s)"
  using assms by (simp add: signup_def Let_def hash_password_def ensure_str_def)

text \<open>
  Claim C6 as stated fails for a password context that refuses a password it finds too long,
  as the example context does beyond 4096 characters: for an unregistered email and a password
  of 4097 characters \<open>signup\<close> raises the context's error and stores no user.
\<close>

theorem long_password_not_hashed:
  "USERS_BY_EMAIL fresh_state (strip (str_lower demo_libs (ascii ''a@x.com''))) = None \<and>
   length (replicate 4097 (97::nat)) = 4097 \<and>
   signup demo_libs demo_config fresh_state
      \<lparr>email_su = ascii ''a@x.com'', password_su = replicate 4097 97, name_su = None\<rparr> 7 1000 =
     (Inl (LibraryError ''PasswordSizeError''), fresh_state)"
  by (simp add: eval_defs auth_defs lib_defs)

text \<open>
  Claim C6, as amended. Take a signup whose lower-cased, stripped email is not yet a key of
  \<open>USERS_BY_EMAIL\<close> and whose password has at least 6 characters. If the password context
  raises while hashing the password, \<open>signup\<close> raises that error and the state is unchanged.
  If it returns a hash, if the context verifies the hashes it produces, and if the response
  model accepts the stored email, then \<open>signup\<close> succeeds: it appends one user with the next
  id, that email and that hash, saves the users, and returns that user. Afterwards every email
  \<open>e\<close> that is equal to the signup email after lower-casing and stripping looks that user up,
  and \<open>login\<close> with \<open>e\<close> and the original password succeeds and returns the same user.
\<close>

theorem signup_then_login:
  assumes fresh: "USERS_BY_EMAIL s (strip (str_lower L (email_su body))) = None"
    and long: "6 \<le> length (password_su body)"
  shows "(ctx_hash L salt (password_su body) = Inl err \<longrightarrow>
            signup L cfg s body salt now = (Inl err, s)) \<and>
         (pwd_sound L \<and> ctx_hash L salt (password_su body) = Inr h \<and>
          validate_email L (strip (str_lower L (email_su body))) = Inr address \<and>
          strip (str_lower L e) = strip (str_lower L (email_su body)) \<longrightarrow>
            (\<exists>out tok s' u.
               signup L cfg s body salt now = (Inr (out, tok), s') \<and>
               RAW_USERS s' = RAW_USERS s @ [u] \<and> USER_DATA_FILE s' = RAW_USERS s' \<and>
               email u = strip (str_lower L (email_su body)) \<and> password u = Some h \<and>
               id_u u = next_user_id s \<and>
               to_public_user L u = Inr (user_pub out) \<and>
               USERS_BY_EMAIL s' (strip (str_lower L e)) = Some u \<and>
               (\<exists>out' tok'. login L cfg s' \<lparr>email_li = e, password_li = password_su body\<rparr> now' =
                              (Inr (out', tok'), s') \<and>
                            user_pub out' = user_pub out)))"
proof (intro conjI impI)
  assume "ctx_hash L salt (password_su body) = Inl err"
  from signup_hash_fails[OF fresh long this]
  show "signup L cfg s body salt now = (Inl err, s)" .
next
  assume h: "pwd_sound L \<and> ctx_hash L salt (password_su body) = Inr h \<and>
          validate_email L (strip (str_lower L (email_su body))) = Inr address \<and>
          strip (str_lower L e) = strip (str_lower L (email_su body))"
  let ?key = "strip (str_lower L (email_su body))"
  let ?local = "takeWhile (\<lambda>c. c \<noteq> 64) ?key"
  let ?u = "\<lparr>id_u = next_user_id s, email = ?key, password = Some h,
             name_u = Some (case name_su body of
                              None \<Rightarrow> ?local
                            | Some n \<Rightarrow> if n = [] then ?local else n),
             role = Some (ascii ''user'')\<rparr>"
  let ?s' = "s\<lparr>RAW_USERS := RAW_USERS s @ [?u],
               USERS_BY_EMAIL := (USERS_BY_EMAIL s)(?key \<mapsto> ?u),
               USER_DATA_FILE := RAW_USERS s @ [?u]\<rparr>"
  let ?tok = "create_access_token L cfg \<lparr>sub = Some (str_int (next_user_id s)), exp_at = None\<rparr>
                None now"
  let ?tok' = "create_access_token L cfg \<lparr>sub = Some (str_int (next_user_id s)), exp_at = None\<rparr>
                None now'"
  let ?pub = "\<lparr>id_pub = next_user_id s, email_pub = address,
               name_pub = (case name_su body of
                              None \<Rightarrow> ?local
                            | Some n \<Rightarrow> if n = [] then ?local else n),
               role_pub = ascii ''user''\<rparr>"
  have hp: "hash_password L salt (Str (password_su body)) = Inr h"
    using h by (simp add: hash_password_def ensure_str_def)
  have pub: "to_public_user L ?u = Inr ?pub"
    using h by (simp add: to_public_user_def)
  have su: "signup L cfg s body salt now =
      (Inr (\<lparr>access_token = Some ?tok, token_type = ''bearer'', user_pub = ?pub\<rparr>, ?tok), ?s')"
    using fresh long by (simp add: signup_def Let_def save_users_to_file_def hp pub)
  have v: "verify_password L (Str (password_su body)) (Str h) = Inr True"
    using h unfolding pwd_sound_def verify_password_def ensure_str_def by auto
  have same: "strip (str_lower L e) = ?key" using h by simp
  have li: "login L cfg ?s' \<lparr>email_li = e, password_li = password_su body\<rparr> now' =
      (Inr (\<lparr>access_token = Some ?tok', token_type = ''bearer'', user_pub = ?pub\<rparr>, ?tok'), ?s')"
    by (simp add: login_def Let_def same v pub)
  have look: "USERS_BY_EMAIL ?s' (strip (str_lower L e)) = Some ?u" by (simp add: same)
  show "\<exists>out tok s' u.
               signup L cfg s body salt now = (Inr (out, tok), s') \<and>
               RAW_USERS s' = RAW_USERS s @ [u] \<and> USER_DATA_FILE s' = RAW_USERS s' \<and>
               email u = strip (str_lower L (email_su body)) \<and> password u = Some h \<and>
               id_u u = next_user_id s \<and>
               to_public_user L u = Inr (user_pub out) \<and>
               USERS_BY_EMAIL s' (strip (str_lower L e)) = Some u \<and>
               (\<exists>out' tok'. login L cfg s' \<lparr>email_li = e, password_li = password_su body\<rparr> now' =
                              (Inr (out', tok'), s') \<and>
                            user_pub out' = user_pub out)"
    apply (rule exI[of _ "\<lparr>access_token = Some ?tok, token_type = ''bearer'', user_pub = ?pub\<rparr>"])
    apply (rule exI[of _ ?tok])
    apply (rule exI[of _ ?s'])
    apply (rule exI[of _ ?u])
    using su li look pub by simp
qed

text \<open>
  C6 on the first-start state: signup as \<open>A@x.com\<close>, login as \<open>" a@X.COM "\<close>; and the
  password of 4097 characters, which is not hashed.
\<close>

theorem signup_then_login_witness:
  "USERS_BY_EMAIL fresh_state (strip (str_lower demo_libs (ascii ''A@x.com''))) = None \<and>
   6 \<le> length (ascii ''secret1'') \<and>
   pwd_sound demo_libs \<and>
   ctx_hash demo_libs 7 (ascii ''secret1'') = Inr ((ascii ''$demo$'' @ [7, 36] @ ascii ''secret1'')) \<and>
   validate_email demo_libs (strip (str_lower demo_libs (ascii ''A@x.com''))) =
     Inr (ascii ''a@x.com'') \<and>
   strip (str_lower demo_libs (ascii '' a@X.COM '')) = strip (str_lower demo_libs (ascii ''A@x.com'')) \<and>
   map_sum id (user_pub \<circ> fst) (fst (signup demo_libs demo_config fresh_state
      \<lparr>email_su = ascii ''A@x.com'', password_su = ascii ''secret1'', name_su = None\<rparr> 7 1000)) =
     Inr \<lparr>id_pub = 1, email_pub = ascii ''a@x.com'', name_pub = ascii ''a'',
          role_pub = ascii ''user''\<rparr> \<and>
   map_sum id (user_pub \<circ> fst) (fst (login demo_libs demo_config
      (snd (signup demo_libs demo_config fresh_state
         \<lparr>email_su = ascii ''A@x.com'', password_su = ascii ''secret1'', name_su = None\<rparr> 7 1000))
      \<lparr>email_li = ascii '' a@X.COM '', password_li = ascii ''secret1''\<rparr> 1001)) =
     Inr \<lparr>id_pub = 1, email_pub = ascii ''a@x.com'', name_pub = ascii ''a'',
          role_pub = ascii ''user''\<rparr> \<and>
   ctx_hash demo_libs 7 (replicate 4097 97) = Inl (LibraryError ''PasswordSizeError'') \<and>
   signup demo_libs demo_config fresh_state
      \<lparr>email_su = ascii ''A@x.com'', password_su = replicate 4097 97, name_su = None\<rparr> 7 1000 =
     (Inl (LibraryError ''PasswordSizeError''), fresh_state)"
  using signup_then_login [where L = demo_libs and s = fresh_state
      and body = "\<lparr>email_su = ascii ''A@x.com'', password_su = ascii ''secret1'', name_su = None\<rparr>"
      and e = "ascii '' a@X.COM ''" and cfg = demo_config and salt = 7 and now = 1000
      and now' = 1001 and h = "(ascii ''$demo$'' @ [7, 36] @ ascii ''secret1'')" and address = "ascii ''a@x.com''"]
    signup_then_login [where L = demo_libs and s = fresh_state
      and body = "\<lparr>email_su = ascii ''A@x.com'', password_su = replicate 4097 97, name_su = None\<rparr>"
      and cfg = demo_config and salt = 7 and now = 1000
      and err = "LibraryError ''PasswordSizeError''"]
    demo_libs_sound
  by (simp add: eval_defs auth_defs lib_defs)

section \<open>C5: verifying a password\<close>




end
